theory Spec2Isabelle
  imports Main "HOL-Library.AList"
begin

section \<open>Documents and values\<close>

text \<open>
  The server keeps two MongoDB collections, \<open>users\<close> and \<open>resumes\<close>. A document is an
  ordered list of fields, as a JavaScript object and a BSON document are. The values that
  occur in a stored document are the JSON scalars a request body can carry, the dates the
  server stamps with \<open>new Date()\<close> and the ObjectIds the store generates. Numbers are
  integers here.
\<close>

datatype val =
    VNull
  | VBool bool
  | VNum int
  | VStr string
  | VDate nat
  | VOid string

type_synonym doc = "(string \<times> val) list"

text \<open>
  A request body is parsed by \<open>express.json\<close>, so a field of it is any JSON value. The
  login handler hands such a value to the store as a query condition, where an object is
  read as query operators; its fields are therefore of type \<open>json\<close>. The handlers that
  store body fields take them as scalars: object- and array-valued fields of a document to
  be stored are not part of this model.
\<close>

datatype json =
    JNull
  | JBool bool
  | JNum int
  | JStr string
  | JArr "json list"
  | JObj "(string \<times> json) list"

fun scalar_of :: "json \<Rightarrow> val option" where
  "scalar_of JNull = Some VNull"
| "scalar_of (JBool b) = Some (VBool b)"
| "scalar_of (JNum n) = Some (VNum n)"
| "scalar_of (JStr t) = Some (VStr t)"
| "scalar_of (JArr xs) = None"
| "scalar_of (JObj kvs) = None"

text \<open>
  A JavaScript object built inside a handler may hold \<open>undefined\<close> (a field destructured
  from a body that lacks it). The driver writes \<open>undefined\<close> as null (its default
  \<open>ignoreUndefined: false\<close>), and \<open>res.json\<close> leaves such a field out.
\<close>

type_synonym jsobj = "(string \<times> val option) list"

definition bson :: "val option \<Rightarrow> val" where
  "bson v = (case v of None \<Rightarrow> VNull | Some w \<Rightarrow> w)"

definition to_bson :: "jsobj \<Rightarrow> doc" where
  "to_bson obj = map (\<lambda>(k, v). (k, bson v)) obj"

definition to_json :: "jsobj \<Rightarrow> doc" where
  "to_json obj = concat (map (\<lambda>(k, v). case v of None \<Rightarrow> [] | Some w \<Rightarrow> [(k, w)]) obj)"

text \<open>\<open>{ ...d, k: v }\<close> as it is serialised: the field is overwritten in place or appended;
  an \<open>undefined\<close> value makes the field disappear from the JSON.\<close>

definition spread_with :: "doc \<Rightarrow> string \<Rightarrow> val option \<Rightarrow> doc" where
  "spread_with d k v = (case v of None \<Rightarrow> AList.delete k d | Some w \<Rightarrow> AList.update k w d)"

text \<open>JavaScript truthiness, for \<open>x || default\<close>.\<close>

fun truthy :: "val option \<Rightarrow> bool" where
  "truthy None = False"
| "truthy (Some VNull) = False"
| "truthy (Some (VBool b)) = b"
| "truthy (Some (VNum n)) = (n \<noteq> 0)"
| "truthy (Some (VStr s)) = (s \<noteq> [])"
| "truthy (Some (VDate t)) = True"
| "truthy (Some (VOid h)) = True"

definition or_default :: "val option \<Rightarrow> val \<Rightarrow> val" where
  "or_default v d = (if truthy v then bson v else d)"

section \<open>ObjectId\<close>

text \<open>
  \<open>new ObjectId(id)\<close> comes from the MongoDB driver. Its contract: a string of 24
  hexadecimal digits is accepted, read without regard to letter case; any other string
  makes the constructor throw. An ObjectId is kept as its lower-case hexadecimal form.
  (Drivers before version 6 also accept a string of exactly 12 bytes; that legacy form is
  not modelled.)
\<close>

definition is_hex :: "char \<Rightarrow> bool" where
  "is_hex c = (c \<in> set ''0123456789abcdefABCDEF'')"

definition lower_hex :: "char \<Rightarrow> char" where
  "lower_hex c = (case map_of (zip ''ABCDEF'' ''abcdef'') c of None \<Rightarrow> c | Some d \<Rightarrow> d)"

definition ObjectId_new :: "string \<Rightarrow> string option" where
  "ObjectId_new s = (if length s = 24 \<and> list_all is_hex s then Some (map lower_hex s) else None)"

section \<open>The document store\<close>

text \<open>
  The store is taken to be available: a call fails only where the driver's contract makes
  it fail on the data (a duplicate key on insert). Each call is atomic.
\<close>

record store =
  users :: "doc list"
  resumes :: "doc list"

text \<open>An equality condition \<open>{ k: v }\<close> of a filter. A condition on null also matches a
  document that lacks the field.\<close>

definition field_eq :: "string \<Rightarrow> val \<Rightarrow> doc \<Rightarrow> bool" where
  "field_eq k v d = (case map_of d k of None \<Rightarrow> v = VNull | Some w \<Rightarrow> w = v)"

text \<open>\<open>{ k: { $ne: v } }\<close>\<close>

definition field_ne :: "string \<Rightarrow> val \<Rightarrow> doc \<Rightarrow> bool" where
  "field_ne k v d = (\<not> field_eq k v d)"

definition findOne :: "(doc \<Rightarrow> bool) \<Rightarrow> doc list \<Rightarrow> doc option" where
  "findOne flt ds = List.find flt ds"

definition find_all :: "(doc \<Rightarrow> bool) \<Rightarrow> doc list \<Rightarrow> doc list" where
  "find_all flt ds = filter flt ds"

text \<open>\<open>updateOne\<close> changes the first matching document and reports \<open>matchedCount\<close>.\<close>

fun updateOne :: "(doc \<Rightarrow> bool) \<Rightarrow> (doc \<Rightarrow> doc) \<Rightarrow> doc list \<Rightarrow> nat \<times> doc list" where
  "updateOne flt upd [] = (0, [])"
| "updateOne flt upd (d # ds) =
     (if flt d then (1, upd d # ds)
      else (case updateOne flt upd ds of (n, ds') \<Rightarrow> (n, d # ds')))"

text \<open>\<open>$set\<close> and \<open>$unset\<close>\<close>

definition set_fields :: "doc \<Rightarrow> doc \<Rightarrow> doc" where
  "set_fields kvs d = fold (\<lambda>(k, v). AList.update k v) kvs d"

definition unset_fields :: "string list \<Rightarrow> doc \<Rightarrow> doc" where
  "unset_fields ks d = fold AList.delete ks d"

text \<open>\<open>deleteOne\<close> removes the first matching document, \<open>deleteMany\<close> all of them; both
  report \<open>deletedCount\<close>.\<close>

fun deleteOne :: "(doc \<Rightarrow> bool) \<Rightarrow> doc list \<Rightarrow> nat \<times> doc list" where
  "deleteOne flt [] = (0, [])"
| "deleteOne flt (d # ds) =
     (if flt d then (1, ds)
      else (case deleteOne flt ds of (n, ds') \<Rightarrow> (n, d # ds')))"

definition deleteMany :: "(doc \<Rightarrow> bool) \<Rightarrow> doc list \<Rightarrow> nat \<times> doc list" where
  "deleteMany flt ds = (length (filter flt ds), filter (\<lambda>d. \<not> flt d) ds)"

text \<open>
  \<open>insertOne\<close> gives the document the generated \<open>_id\<close> and appends it. The store rejects a
  document whose \<open>_id\<close> is already taken, and the \<open>users\<close> collection (unique index on
  \<open>email\<close>, created in \<open>db.js\<close>) rejects one whose email is already taken; a missing email
  is indexed as null. The rejection is the exception the handler catches.
\<close>

definition email_key :: "doc \<Rightarrow> val" where
  "email_key d = bson (map_of d ''email'')"

definition insertOne :: "bool \<Rightarrow> string \<Rightarrow> doc \<Rightarrow> doc list \<Rightarrow> doc list option" where
  "insertOne unique_email new_id d ds =
     (if list_ex (field_eq ''_id'' (VOid new_id)) ds then None
      else if unique_email \<and> list_ex (\<lambda>u. email_key u = email_key d) ds then None
      else Some (ds @ [(''_id'', VOid new_id) # d]))"

section \<open>Responses and the environment of a request\<close>

datatype body = Obj doc | Arr "doc list"

type_synonym response = "nat \<times> body"

abbreviation status :: "response \<Rightarrow> nat" where
  "status r \<equiv> fst r"

abbreviation body_of :: "response \<Rightarrow> body" where
  "body_of r \<equiv> snd r"

text \<open>
  What a request takes from outside the program: the clock (\<open>new Date()\<close>), the ObjectId
  the store generates on insert, and bcrypt. \<open>salted_hash\<close> is the hash this call of
  \<open>bcrypt.hash\<close> produces (the salt is random), \<open>hash_matches\<close> is \<open>bcrypt.compare\<close> on two
  strings. \<open>property_key\<close> and \<open>inherited\<close> stand for the JavaScript runtime in the one
  place where a plain object is used as a lookup table: the conversion of a value to a
  property key, and what a key that is no own property finds on \<open>Object.prototype\<close>.
  \<open>other_operator\<close> stands for the store's query operators other than \<open>$eq\<close> and \<open>$ne\<close>:
  the condition an operator and its operand put on a field (\<open>None\<close> for a missing
  field), or \<open>None\<close> when the store rejects the query.
\<close>

record env =
  clock :: nat
  generated_id :: string
  salted_hash :: "string \<Rightarrow> string"
  hash_matches :: "string \<Rightarrow> string \<Rightarrow> bool"
  property_key :: "val \<Rightarrow> string"
  inherited :: "string \<Rightarrow> doc option"
  other_operator :: "string \<Rightarrow> json \<Rightarrow> (val option \<Rightarrow> bool) option"

text \<open>bcrypt rejects (the awaited promise throws) unless its arguments are strings.\<close>

definition bcrypt_hash :: "env \<Rightarrow> val option \<Rightarrow> string option" where
  "bcrypt_hash e data = (case data of Some (VStr p) \<Rightarrow> Some (salted_hash e p) | _ \<Rightarrow> None)"

definition bcrypt_compare :: "env \<Rightarrow> json option \<Rightarrow> val option \<Rightarrow> bool option" where
  "bcrypt_compare e data hash =
     (case (data, hash) of
        (Some (JStr p), Some (VStr h)) \<Rightarrow> Some (hash_matches e p h)
      | _ \<Rightarrow> None)"

section \<open>Resume lifecycle\<close>

text \<open>\<open>PUT /api/resumes/:id/archive\<close>\<close>

definition archiveResume :: "env \<Rightarrow> string \<Rightarrow> store \<Rightarrow> response \<times> store" where
  "archiveResume e ident s =
     (case ObjectId_new ident of
        None \<Rightarrow> ((500, Obj [(''message'', VStr ''Server error while archiving resume'')]), s)
      | Some oid \<Rightarrow>
          (case updateOne (field_eq ''_id'' (VOid oid))
                  (set_fields [(''archived'', VBool True), (''archivedAt'', VDate (clock e))])
                  (resumes s) of
             (matchedCount, rs) \<Rightarrow>
               if matchedCount = 0
               then ((404, Obj [(''message'', VStr ''Resume not found'')]), s\<lparr>resumes := rs\<rparr>)
               else ((200, Obj [(''message'', VStr ''Resume archived successfully'')]),
                     s\<lparr>resumes := rs\<rparr>)))"

text \<open>\<open>PUT /api/resumes/:id/restore\<close>\<close>

definition restoreResume :: "string \<Rightarrow> store \<Rightarrow> response \<times> store" where
  "restoreResume ident s =
     (case ObjectId_new ident of
        None \<Rightarrow> ((500, Obj [(''message'', VStr ''Server error while restoring resume'')]), s)
      | Some oid \<Rightarrow>
          (case updateOne (field_eq ''_id'' (VOid oid))
                  (unset_fields [''archived'', ''archivedAt''])
                  (resumes s) of
             (matchedCount, rs) \<Rightarrow>
               if matchedCount = 0
               then ((404, Obj [(''message'', VStr ''Resume not found'')]), s\<lparr>resumes := rs\<rparr>)
               else ((200, Obj [(''message'', VStr ''Resume restored successfully'')]),
                     s\<lparr>resumes := rs\<rparr>)))"

text \<open>\<open>DELETE /api/resumes/:id\<close>\<close>

definition deleteResume :: "string \<Rightarrow> store \<Rightarrow> response \<times> store" where
  "deleteResume ident s =
     (case ObjectId_new ident of
        None \<Rightarrow> ((500, Obj [(''message'', VStr ''Server error while deleting resume'')]), s)
      | Some oid \<Rightarrow>
          (case deleteOne (field_eq ''_id'' (VOid oid)) (resumes s) of
             (deletedCount, rs) \<Rightarrow>
               if deletedCount = 0
               then ((404, Obj [(''message'', VStr ''Resume not found'')]), s\<lparr>resumes := rs\<rparr>)
               else ((200, Obj [(''message'', VStr ''Resume deleted permanently'')]),
                     s\<lparr>resumes := rs\<rparr>)))"

text \<open>\<open>PUT /api/admin/resumes/:id/archive\<close>\<close>

definition adminArchiveResume :: "env \<Rightarrow> string \<Rightarrow> store \<Rightarrow> response \<times> store" where
  "adminArchiveResume e ident s =
     (case ObjectId_new ident of
        None \<Rightarrow> ((500, Obj [(''message'', VStr ''Server error while archiving resume'')]), s)
      | Some oid \<Rightarrow>
          (case updateOne (field_eq ''_id'' (VOid oid))
                  (set_fields [(''archived'', VBool True), (''archivedAt'', VDate (clock e))])
                  (resumes s) of
             (matchedCount, rs) \<Rightarrow>
               if matchedCount = 0
               then ((404, Obj [(''message'', VStr ''Resume not found'')]), s\<lparr>resumes := rs\<rparr>)
               else ((200, Obj [(''message'', VStr ''Resume archived successfully'')]),
                     s\<lparr>resumes := rs\<rparr>)))"

text \<open>\<open>DELETE /api/admin/resumes/:id\<close>\<close>

definition adminDeleteResume :: "string \<Rightarrow> store \<Rightarrow> response \<times> store" where
  "adminDeleteResume ident s =
     (case ObjectId_new ident of
        None \<Rightarrow> ((500, Obj [(''message'', VStr ''Server error while deleting resume'')]), s)
      | Some oid \<Rightarrow>
          (case deleteOne (field_eq ''_id'' (VOid oid)) (resumes s) of
             (deletedCount, rs) \<Rightarrow>
               if deletedCount = 0
               then ((404, Obj [(''message'', VStr ''Resume not found'')]), s\<lparr>resumes := rs\<rparr>)
               else ((200, Obj [(''message'', VStr ''Resume deleted successfully'')]),
                     s\<lparr>resumes := rs\<rparr>)))"

section \<open>Listing\<close>

text \<open>
  \<open>.sort({ k: -1 })\<close>: descending by the field, in the store's comparison order of types
  (null or missing, number, string, ObjectId, boolean, date) and by value inside a type.
  The store promises no order among equal keys; here they keep the collection's order.
\<close>

fun type_rank :: "val \<Rightarrow> nat" where
  "type_rank VNull = 0"
| "type_rank (VNum n) = 1"
| "type_rank (VStr s) = 2"
| "type_rank (VOid h) = 3"
| "type_rank (VBool b) = 4"
| "type_rank (VDate t) = 5"

fun bytes_le :: "string \<Rightarrow> string \<Rightarrow> bool" where
  "bytes_le [] ys = True"
| "bytes_le (x # xs) [] = False"
| "bytes_le (x # xs) (y # ys) =
     ((of_char x :: nat) < of_char y \<or> (x = y \<and> bytes_le xs ys))"

fun val_le :: "val \<Rightarrow> val \<Rightarrow> bool" where
  "val_le (VNum a) (VNum b) = (a \<le> b)"
| "val_le (VStr a) (VStr b) = bytes_le a b"
| "val_le (VOid a) (VOid b) = bytes_le a b"
| "val_le (VBool a) (VBool b) = (a \<longrightarrow> b)"
| "val_le (VDate a) (VDate b) = (a \<le> b)"
| "val_le a b = (type_rank a \<le> type_rank b)"

definition sort_field :: "string \<Rightarrow> doc \<Rightarrow> val" where
  "sort_field k d = bson (map_of d k)"

fun insert_desc :: "string \<Rightarrow> doc \<Rightarrow> doc list \<Rightarrow> doc list" where
  "insert_desc k d [] = [d]"
| "insert_desc k d (x # xs) =
     (if val_le (sort_field k x) (sort_field k d) then d # x # xs
      else x # insert_desc k d xs)"

definition sort_desc :: "string \<Rightarrow> doc list \<Rightarrow> doc list" where
  "sort_desc k ds = foldr (insert_desc k) ds []"

text \<open>\<open>resume => ({ ...resume, id: resume._id })\<close>\<close>

definition with_id :: "doc \<Rightarrow> doc" where
  "with_id d = spread_with d ''id'' (map_of d ''_id'')"

text \<open>\<open>GET /api/users/:userId/resumes\<close>\<close>

definition getUserResumes :: "string \<Rightarrow> store \<Rightarrow> response \<times> store" where
  "getUserResumes userId s =
     (let resumes =
            sort_desc ''uploadedAt''
              (find_all (\<lambda>r. field_eq ''userId'' (VStr userId) r
                            \<and> field_ne ''archived'' (VBool True) r) (resumes s));
          formattedResumes = map with_id resumes
      in ((200, Arr formattedResumes), s))"

text \<open>\<open>GET /api/users/:userId/resumes/archived\<close>\<close>

definition getArchivedResumes :: "string \<Rightarrow> store \<Rightarrow> response \<times> store" where
  "getArchivedResumes userId s =
     (let archivedResumes =
            sort_desc ''archivedAt''
              (find_all (\<lambda>r. field_eq ''userId'' (VStr userId) r
                            \<and> field_eq ''archived'' (VBool True) r) (resumes s));
          formattedResumes = map with_id archivedResumes
      in ((200, Arr formattedResumes), s))"

text \<open>\<open>GET /api/admin/users\<close>; \<open>.project({ password: 0 })\<close> drops the field.\<close>

definition adminGetUsers :: "store \<Rightarrow> response \<times> store" where
  "adminGetUsers s =
     (let users = map (AList.delete ''password'')
                    (find_all (field_ne ''role'' (VStr ''admin'')) (users s));
          formattedUsers = map with_id users
      in ((200, Arr formattedUsers), s))"

text \<open>
  \<open>GET /api/admin/resumes\<close>. \<open>usersMap\<close> is a plain object keyed by \<open>user._id\<close>: a later
  user overwrites an earlier one under the same key, and a key that is no own property is
  looked up on the prototype before the placeholder is taken.
\<close>

definition usersMap_get :: "env \<Rightarrow> doc list \<Rightarrow> val \<Rightarrow> doc option" where
  "usersMap_get e us k =
     (case findOne (\<lambda>u. property_key e (bson (map_of u ''_id'')) = property_key e k) (rev us) of
        Some u \<Rightarrow> Some u
      | None \<Rightarrow> inherited e (property_key e k))"

definition adminGetResumes :: "env \<Rightarrow> store \<Rightarrow> response \<times> store" where
  "adminGetResumes e s =
     (let resumes = sort_desc ''uploadedAt''
                      (find_all (field_ne ''archived'' (VBool True)) (resumes s));
          users = find_all (\<lambda>u. True) (users s);
          resumesWithUsers =
            map (\<lambda>resume.
                   let user = (case usersMap_get e users (bson (map_of resume ''userId'')) of
                                 Some u \<Rightarrow> u
                               | None \<Rightarrow> [(''name'', VStr ''Unknown User''),
                                          (''email'', VStr ''Unknown Email'')])
                   in spread_with
                        (spread_with (with_id resume) ''userName'' (map_of user ''name''))
                        ''userEmail'' (map_of user ''email''))
                resumes
      in ((200, Arr resumesWithUsers), s))"

section \<open>Users\<close>

text \<open>\<open>POST /api/users/register\<close>. After \<open>insertOne\<close> the object \<open>newUser\<close> carries the
  generated \<open>_id\<close> as its last property.\<close>

definition register :: "env \<Rightarrow> val option \<Rightarrow> val option \<Rightarrow> val option \<Rightarrow> store
                         \<Rightarrow> response \<times> store" where
  "register e name email password s =
     (case findOne (field_eq ''email'' (bson email)) (users s) of
        Some existingUser \<Rightarrow>
          ((400, Obj [(''message'', VStr ''User with this email already exists'')]), s)
      | None \<Rightarrow>
          (case bcrypt_hash e password of
             None \<Rightarrow> ((500, Obj [(''message'', VStr ''Server error during registration'')]), s)
           | Some hashedPassword \<Rightarrow>
               (let newUser = [(''name'', name),
                               (''email'', email),
                               (''password'', Some (VStr hashedPassword)),
                               (''role'', Some (VStr ''user'')),
                               (''createdAt'', Some (VDate (clock e)))]
                in case insertOne True (generated_id e) (to_bson newUser) (users s) of
                     None \<Rightarrow>
                       ((500, Obj [(''message'', VStr ''Server error during registration'')]), s)
                   | Some us \<Rightarrow>
                       (let insertedId = VOid (generated_id e);
                            userWithoutPassword =
                              AList.delete ''password'' (newUser @ [(''_id'', Some insertedId)])
                        in ((201, Obj (to_json (AList.update ''id'' (Some insertedId)
                                                  userWithoutPassword))),
                            s\<lparr>users := us\<rparr>)))))"

text \<open>
  The condition \<open>{ email: x }\<close> for a value \<open>x\<close> taken from the request body as it is. An
  \<open>undefined\<close> value is sent as null. A scalar must equal the field (null also matches a
  missing field). An object whose first key starts with \<open>$\<close> is an operator expression:
  every key must be an operator, and all of them must hold; the store rejects the query
  otherwise. Any other object, and an array, asks for a field equal to that object or
  array, which no stored scalar is.
\<close>

definition is_operator :: "string \<Rightarrow> bool" where
  "is_operator k = (case k of [] \<Rightarrow> False | c # cs \<Rightarrow> c = CHR ''$'')"

definition literal_match :: "json \<Rightarrow> val option \<Rightarrow> bool" where
  "literal_match x field = (case scalar_of x of None \<Rightarrow> False | Some v \<Rightarrow> bson field = v)"

definition operator_condition :: "env \<Rightarrow> string \<Rightarrow> json \<Rightarrow> (val option \<Rightarrow> bool) option" where
  "operator_condition e op operand =
     (if \<not> is_operator op then None
      else if op = ''$eq'' then Some (literal_match operand)
      else if op = ''$ne'' then Some (\<lambda>field. \<not> literal_match operand field)
      else other_operator e op operand)"

fun operator_expression :: "env \<Rightarrow> (string \<times> json) list \<Rightarrow> (val option \<Rightarrow> bool) option" where
  "operator_expression e [] = Some (\<lambda>field. True)"
| "operator_expression e ((op, operand) # rest) =
     (case operator_condition e op operand of
        None \<Rightarrow> None
      | Some c \<Rightarrow>
          (case operator_expression e rest of
             None \<Rightarrow> None
           | Some cs \<Rightarrow> Some (\<lambda>field. c field \<and> cs field)))"

definition query_condition :: "env \<Rightarrow> json option \<Rightarrow> (val option \<Rightarrow> bool) option" where
  "query_condition e x =
     (case x of
        None \<Rightarrow> Some (literal_match JNull)
      | Some (JObj ((k, y) # rest)) \<Rightarrow>
          if is_operator k then operator_expression e ((k, y) # rest)
          else Some (literal_match (JObj ((k, y) # rest)))
      | Some y \<Rightarrow> Some (literal_match y))"

text \<open>\<open>POST /api/users/login\<close>. A query the store rejects makes \<open>findOne\<close> throw.\<close>

definition login :: "env \<Rightarrow> json option \<Rightarrow> json option \<Rightarrow> store \<Rightarrow> response \<times> store" where
  "login e email password s =
     (case query_condition e email of
        None \<Rightarrow> ((500, Obj [(''message'', VStr ''Server error during login'')]), s)
      | Some email_matches \<Rightarrow>
          (case findOne (\<lambda>u. email_matches (map_of u ''email'')) (users s) of
             None \<Rightarrow> ((401, Obj [(''message'', VStr ''Invalid email or password'')]), s)
           | Some user \<Rightarrow>
               (case bcrypt_compare e password (map_of user ''password'') of
                  None \<Rightarrow> ((500, Obj [(''message'', VStr ''Server error during login'')]), s)
                | Some isPasswordValid \<Rightarrow>
                    if \<not> isPasswordValid
                    then ((401, Obj [(''message'', VStr ''Invalid email or password'')]), s)
                    else (let userWithoutPassword = AList.delete ''password'' user
                          in ((200, Obj (spread_with userWithoutPassword ''id''
                                           (map_of user ''_id''))),
                              s)))))"

text \<open>\<open>POST /api/resumes\<close>\<close>

definition saveResume :: "env \<Rightarrow> val option \<Rightarrow> val option \<Rightarrow> val option \<Rightarrow> val option
                           \<Rightarrow> store \<Rightarrow> response \<times> store" where
  "saveResume e userId fileName description fileContent s =
     (let newResume = [(''userId'', userId),
                       (''fileName'', fileName),
                       (''description'', description),
                       (''fileContent'', fileContent),
                       (''uploadedAt'', Some (VDate (clock e)))]
      in case insertOne False (generated_id e) (to_bson newResume) (resumes s) of
           None \<Rightarrow> ((500, Obj [(''message'', VStr ''Server error while saving resume'')]), s)
         | Some rs \<Rightarrow>
             (let insertedId = VOid (generated_id e)
              in ((201, Obj (to_json (AList.update ''id'' (Some insertedId)
                                        (newResume @ [(''_id'', Some insertedId)])))),
                  s\<lparr>resumes := rs\<rparr>)))"

section \<open>Administration\<close>

text \<open>\<open>initializeAdmin\<close>, run once at start; it answers nobody, and an error is only logged.\<close>

definition initializeAdmin :: "env \<Rightarrow> store \<Rightarrow> store" where
  "initializeAdmin e s =
     (case findOne (field_eq ''role'' (VStr ''admin'')) (users s) of
        Some adminExists \<Rightarrow> s
      | None \<Rightarrow>
          (case bcrypt_hash e (Some (VStr ''admin123'')) of
             None \<Rightarrow> s
           | Some hashedPassword \<Rightarrow>
               (case insertOne True (generated_id e)
                       [(''name'', VStr ''Admin User''),
                        (''email'', VStr ''admin@resumehub.com''),
                        (''password'', VStr hashedPassword),
                        (''role'', VStr ''admin''),
                        (''createdAt'', VDate (clock e))] (users s) of
                  None \<Rightarrow> s
                | Some us \<Rightarrow> s\<lparr>users := us\<rparr>)))"

text \<open>\<open>GET /api/admin/status\<close>\<close>

definition adminStatus :: "store \<Rightarrow> response \<times> store" where
  "adminStatus s =
     (case findOne (field_eq ''role'' (VStr ''admin'')) (users s) of
        Some adminExists \<Rightarrow>
          ((200, Obj [(''adminExists'', VBool True), (''message'', VStr ''Admin user exists'')]), s)
      | None \<Rightarrow>
          ((200, Obj [(''adminExists'', VBool False), (''message'', VStr ''No admin user found'')]),
           s))"

text \<open>\<open>POST /api/admin/create\<close>\<close>

definition adminCreate :: "env \<Rightarrow> val option \<Rightarrow> val option \<Rightarrow> val option \<Rightarrow> store
                            \<Rightarrow> response \<times> store" where
  "adminCreate e email password name s =
     (case findOne (field_eq ''role'' (VStr ''admin'')) (users s) of
        Some adminExists \<Rightarrow> ((400, Obj [(''message'', VStr ''Admin user already exists'')]), s)
      | None \<Rightarrow>
          (case bcrypt_hash e (Some (or_default password (VStr ''admin123''))) of
             None \<Rightarrow>
               ((500, Obj [(''message'', VStr ''Server error while creating admin user'')]), s)
           | Some hashedPassword \<Rightarrow>
               (case insertOne True (generated_id e)
                       [(''name'', or_default name (VStr ''Admin User'')),
                        (''email'', or_default email (VStr ''admin@resumehub.com'')),
                        (''password'', VStr hashedPassword),
                        (''role'', VStr ''admin''),
                        (''createdAt'', VDate (clock e))] (users s) of
                  None \<Rightarrow>
                    ((500, Obj [(''message'', VStr ''Server error while creating admin user'')]),
                     s)
                | Some us \<Rightarrow>
                    ((201, Obj [(''message'', VStr ''Admin user created successfully''),
                                (''id'', VOid (generated_id e)),
                                (''email'', or_default email (VStr ''admin@resumehub.com''))]),
                     s\<lparr>users := us\<rparr>))))"

text \<open>
  \<open>DELETE /api/admin/users/:id\<close>. The handler awaits three store calls in turn: the
  lookup of the user, \<open>deleteMany\<close> on the resumes, \<open>deleteOne\<close> on the user. Other
  requests may be served between two awaits; \<open>between1\<close> and \<open>between2\<close> are what they do
  to the store after the lookup and after the resumes are deleted.
\<close>

definition adminDeleteUser_interleaved ::
    "(store \<Rightarrow> store) \<Rightarrow> (store \<Rightarrow> store) \<Rightarrow> string \<Rightarrow> store \<Rightarrow> response \<times> store" where
  "adminDeleteUser_interleaved between1 between2 ident s =
     (case ObjectId_new ident of
        None \<Rightarrow> ((500, Obj [(''message'', VStr ''Server error while deleting user'')]), s)
      | Some oid \<Rightarrow>
          (case findOne (field_eq ''_id'' (VOid oid)) (users s) of
             None \<Rightarrow> ((404, Obj [(''message'', VStr ''User not found'')]), s)
           | Some user \<Rightarrow>
               if map_of user ''role'' = Some (VStr ''admin'')
               then ((403, Obj [(''message'', VStr ''Cannot delete admin users'')]), s)
               else
                 (let s1 = between1 s in
                  case deleteMany (field_eq ''userId'' (VStr ident)) (resumes s1) of
                    (resumeDeleted, rs) \<Rightarrow>
                      (let s2 = between2 (s1\<lparr>resumes := rs\<rparr>) in
                       case deleteOne (field_eq ''_id'' (VOid oid)) (users s2) of
                         (userDeleted, us) \<Rightarrow>
                           if userDeleted = 0
                           then ((404, Obj [(''message'', VStr ''User not found'')]),
                                 s2\<lparr>users := us\<rparr>)
                           else ((200,
                                  Obj [(''message'',
                                        VStr ''User and all associated resumes deleted successfully''),
                                       (''deletedResumes'', VNum (int resumeDeleted))]),
                                 s2\<lparr>users := us\<rparr>)))))"

text \<open>The request served alone.\<close>

definition adminDeleteUser :: "string \<Rightarrow> store \<Rightarrow> response \<times> store" where
  "adminDeleteUser ident s = adminDeleteUser_interleaved (\<lambda>s. s) (\<lambda>s. s) ident s"

section \<open>The access surface\<close>

datatype request =
    Register "val option" "val option" "val option"
  | Login "json option" "json option"
  | SaveResume "val option" "val option" "val option" "val option"
  | GetUserResumes string
  | AdminGetUsers
  | AdminGetResumes
  | AdminStatus
  | AdminCreate "val option" "val option" "val option"
  | ArchiveResume string
  | DeleteResume string
  | AdminArchiveResume string
  | AdminDeleteResume string
  | AdminDeleteUser string
  | GetArchivedResumes string
  | RestoreResume string

fun handle :: "env \<Rightarrow> request \<Rightarrow> store \<Rightarrow> response \<times> store" where
  "handle e (Register name email password) s = register e name email password s"
| "handle e (Login email password) s = login e email password s"
| "handle e (SaveResume userId fileName description fileContent) s =
     saveResume e userId fileName description fileContent s"
| "handle e (GetUserResumes userId) s = getUserResumes userId s"
| "handle e AdminGetUsers s = adminGetUsers s"
| "handle e AdminGetResumes s = adminGetResumes e s"
| "handle e AdminStatus s = adminStatus s"
| "handle e (AdminCreate email password name) s = adminCreate e email password name s"
| "handle e (ArchiveResume ident) s = archiveResume e ident s"
| "handle e (DeleteResume ident) s = deleteResume ident s"
| "handle e (AdminArchiveResume ident) s = adminArchiveResume e ident s"
| "handle e (AdminDeleteResume ident) s = adminDeleteResume ident s"
| "handle e (AdminDeleteUser ident) s = adminDeleteUser ident s"
| "handle e (GetArchivedResumes userId) s = getArchivedResumes userId s"
| "handle e (RestoreResume ident) s = restoreResume ident s"

text \<open>The scalar a body field stands for in a query: \<open>undefined\<close> is sent as null; an
  object or an array is no scalar.\<close>

definition scalar_value :: "json option \<Rightarrow> val option" where
  "scalar_value x = (case x of None \<Rightarrow> Some VNull | Some y \<Rightarrow> scalar_of y)"

text \<open>The documents a response carries.\<close>

definition returned :: "response \<times> store \<Rightarrow> doc list" where
  "returned r = (case body_of (fst r) of Arr ds \<Rightarrow> ds | Obj d \<Rightarrow> [d])"

text \<open>Whether a response shows a \<open>password\<close> field in any of its objects.\<close>

definition has_password :: "doc \<Rightarrow> bool" where
  "has_password d = (map_of d ''password'' \<noteq> None)"

definition exposes_password :: "body \<Rightarrow> bool" where
  "exposes_password b =
     (case b of Obj d \<Rightarrow> has_password d | Arr ds \<Rightarrow> list_ex has_password ds)"

text \<open>The stores the server reaches from empty collections, requests served one at a
  time.\<close>

inductive reachable :: "store \<Rightarrow> bool" where
  start: "reachable \<lparr>users = [], resumes = []\<rparr>"
| boot: "reachable s \<Longrightarrow> reachable (initializeAdmin e s)"
| request: "reachable s \<Longrightarrow> reachable (snd (handle e req s))"

section \<open>Sample data\<close>

text \<open>A store with one administrator, one user and one resume of that user, and an
  environment, for the concrete instances below.\<close>

definition demo_env :: env where
  "demo_env = \<lparr>clock = 1700000000000,
               generated_id = ''65a1b2c3d4e5f60718293a4b'',
               salted_hash = (\<lambda>p. ''$2b$10$'' @ p),
               hash_matches = (\<lambda>p h. h = ''$2b$10$'' @ p),
               property_key = (\<lambda>v. case v of VStr t \<Rightarrow> t | VOid h \<Rightarrow> h | _ \<Rightarrow> ''null''),
               inherited = (\<lambda>k. None),
               other_operator = (\<lambda>op operand. None)\<rparr>"

definition demo_resume :: doc where
  "demo_resume = [(''_id'', VOid ''507f1f77bcf86cd799439011''),
                  (''userId'', VStr ''507f191e810c19729de860ea''),
                  (''fileName'', VStr ''cv.pdf''),
                  (''description'', VStr ''first''),
                  (''fileContent'', VStr ''JVBERi0=''),
                  (''uploadedAt'', VDate 1690000000000)]"

definition demo_user :: doc where
  "demo_user = [(''_id'', VOid ''507f191e810c19729de860ea''),
                (''name'', VStr ''Ada''),
                (''email'', VStr ''ada@example.com''),
                (''password'', VStr ''$2b$10$secret''),
                (''role'', VStr ''user''),
                (''createdAt'', VDate 1680000000000)]"

definition demo_admin :: doc where
  "demo_admin = [(''_id'', VOid ''507f191e810c19729de860eb''),
                 (''name'', VStr ''Admin User''),
                 (''email'', VStr ''admin@resumehub.com''),
                 (''password'', VStr ''$2b$10$admin123''),
                 (''role'', VStr ''admin''),
                 (''createdAt'', VDate 1670000000000)]"

definition demo_store :: store where
  "demo_store = \<lparr>users = [demo_admin, demo_user], resumes = [demo_resume]\<rparr>"

text \<open>Two things that can happen between two awaits of a handler: nothing, and a second
  request that deletes the sample user.\<close>

definition undisturbed :: "store \<Rightarrow> store" where
  "undisturbed s = s"

definition concurrent_delete :: "store \<Rightarrow> store" where
  "concurrent_delete s = snd (adminDeleteUser ''507f191e810c19729de860ea'' s)"

section \<open>Facts about the store operations\<close>

lemma field_eq_bson: "field_eq k v d = (bson (map_of d k) = v)"
  by (auto simp: field_eq_def bson_def split: option.splits)

lemma field_eq_oid: "field_eq k (VOid h) d = (map_of d k = Some (VOid h))"
  by (auto simp: field_eq_def split: option.splits)

lemma findOne_flt: "findOne flt ds = Some d \<Longrightarrow> flt d"
  by (auto simp: findOne_def find_Some_iff)

lemma updateOne_none: "findOne flt ds = None \<Longrightarrow> updateOne flt upd ds = (0, ds)"
  by (induction ds) (auto simp: findOne_def split: if_splits)

lemma updateOne_fixed:
  "findOne flt ds = Some d \<Longrightarrow> upd d = d \<Longrightarrow> updateOne flt upd ds = (1, ds)"
  by (induction ds) (auto simp: findOne_def split: if_splits)

lemma updateOne_count: "findOne flt ds = Some d \<Longrightarrow> fst (updateOne flt upd ds) = 1"
  by (induction ds) (auto simp: findOne_def split: if_splits prod.splits)

lemma updateOne_found:
  "findOne flt ds = Some d \<Longrightarrow> flt (upd d) \<Longrightarrow>
   findOne flt (snd (updateOne flt upd ds)) = Some (upd d)"
  by (induction ds) (auto simp: findOne_def split: if_splits prod.splits)

lemma updateOne_twice:
  "findOne flt ds = Some d \<Longrightarrow> flt (f d) \<Longrightarrow>
   updateOne flt g (snd (updateOne flt f ds)) = updateOne flt (\<lambda>x. g (f x)) ds"
  by (induction ds) (auto simp: findOne_def split: if_splits prod.splits)

lemma deleteOne_none: "findOne flt ds = None \<Longrightarrow> deleteOne flt ds = (0, ds)"
  by (induction ds) (auto simp: findOne_def split: if_splits)

lemma deleteOne_count: "findOne flt ds = Some d \<Longrightarrow> fst (deleteOne flt ds) = 1"
  by (induction ds) (auto simp: findOne_def split: if_splits prod.splits)

lemma set_archive_id:
  "map_of (set_fields [(''archived'', a), (''archivedAt'', b)] d) ''_id'' = map_of d ''_id''"
  by (simp add: set_fields_def update_conv')

lemma unset_archive_id:
  "map_of (unset_fields [''archived'', ''archivedAt''] d) ''_id'' = map_of d ''_id''"
  by (simp add: unset_fields_def delete_conv')

lemma unset_archive_set:
  "unset_fields [''archived'', ''archivedAt'']
     (set_fields [(''archived'', a), (''archivedAt'', b)] d)
   = unset_fields [''archived'', ''archivedAt''] d"
  by (simp add: set_fields_def unset_fields_def delete_update_same delete_update delete_twist)

lemma unset_absent:
  "map_of d ''archived'' = None \<Longrightarrow> map_of d ''archivedAt'' = None \<Longrightarrow>
   unset_fields [''archived'', ''archivedAt''] d = d"
  by (simp add: unset_fields_def map_of_eq_None_iff)

lemma unset_gone:
  "map_of (unset_fields [''archived'', ''archivedAt''] d) ''archived'' = None \<and>
   map_of (unset_fields [''archived'', ''archivedAt''] d) ''archivedAt'' = None"
  by (simp add: unset_fields_def delete_conv')

lemma findOne_None_iff: "(findOne flt ds = None) = (\<forall>d \<in> set ds. \<not> flt d)"
  by (auto simp: findOne_def find_None_iff)

lemma findOne_unique:
  "distinct (map key ds) \<Longrightarrow> u \<in> set ds \<Longrightarrow> \<forall>d. flt d = (key d = v) \<Longrightarrow> key u = v \<Longrightarrow>
   findOne flt ds = Some u"
proof (induction ds)
  case Nil
  then show ?case by simp
next
  case (Cons d ds)
  then show ?case by (auto simp: findOne_def)
qed

lemma findOne_mem: "findOne flt ds = Some d \<Longrightarrow> d \<in> set ds"
  by (induction ds) (auto simp: findOne_def split: if_splits)

lemma deleteOne_unique:
  "distinct (map (\<lambda>d. map_of d ''_id'') ds) \<Longrightarrow>
   findOne (field_eq ''_id'' (VOid oid)) ds = Some u \<Longrightarrow>
   deleteOne (field_eq ''_id'' (VOid oid)) ds
     = (1, filter (\<lambda>d. \<not> field_eq ''_id'' (VOid oid) d) ds)"
proof (induction ds)
  case Nil
  then show ?case by (simp add: findOne_def)
next
  case (Cons d ds)
  show ?case
  proof (cases "field_eq ''_id'' (VOid oid) d")
    case True
    then have "\<forall>x \<in> set ds. \<not> field_eq ''_id'' (VOid oid) x"
      using Cons.prems(1) by (auto simp: field_eq_oid) (metis image_eqI)
    then have "filter (\<lambda>d. \<not> field_eq ''_id'' (VOid oid) d) ds = ds"
      by (simp add: filter_id_conv)
    with True show ?thesis by simp
  next
    case False
    with Cons show ?thesis by (simp add: findOne_def)
  qed
qed

lemma bson_Some: "bson (Some v) = v"
  by (simp add: bson_def)

text \<open>The sample identifiers are well-formed.\<close>

lemma oid_demo_resume:
  "ObjectId_new ''507f1f77bcf86cd799439011'' = Some ''507f1f77bcf86cd799439011''"
  by (simp add: ObjectId_new_def is_hex_def lower_hex_def)

lemma oid_demo_missing:
  "ObjectId_new ''507f1f77bcf86cd799439012'' = Some ''507f1f77bcf86cd799439012''"
  by (simp add: ObjectId_new_def is_hex_def lower_hex_def)

lemma oid_demo_user:
  "ObjectId_new ''507f191e810c19729de860ea'' = Some ''507f191e810c19729de860ea''"
  by (simp add: ObjectId_new_def is_hex_def lower_hex_def)

lemma oid_demo_admin:
  "ObjectId_new ''507f191e810c19729de860eb'' = Some ''507f191e810c19729de860eb''"
  by (simp add: ObjectId_new_def is_hex_def lower_hex_def)

section \<open>Archive and restore\<close>

text \<open>
  C1. Take a resume in the active state (its \<open>archived\<close> is not true), named by a
  well-formed identifier. Archive and then Restore on that identifier both answer 200, and
  afterwards the resume is the old record with \<open>archived\<close> and \<open>archivedAt\<close> removed: neither
  field is present. If the resume was never archived (it had neither field), the whole
  store is as it was before, so the record equals the never-archived one.
\<close>

theorem archive_then_restore:
  assumes "ObjectId_new ident = Some oid"
      and "findOne (field_eq ''_id'' (VOid oid)) (resumes s) = Some r"
      and "field_ne ''archived'' (VBool True) r"
  shows "status (fst (archiveResume e ident s)) = 200
       \<and> status (fst (restoreResume ident (snd (archiveResume e ident s)))) = 200
       \<and> (\<exists>r'. findOne (field_eq ''_id'' (VOid oid))
                   (resumes (snd (restoreResume ident (snd (archiveResume e ident s))))) = Some r'
              \<and> map_of r' ''archived'' = None \<and> map_of r' ''archivedAt'' = None
              \<and> r' = unset_fields [''archived'', ''archivedAt''] r)
       \<and> (map_of r ''archived'' = None \<and> map_of r ''archivedAt'' = None
            \<longrightarrow> snd (restoreResume ident (snd (archiveResume e ident s))) = s)"
proof -
  let ?flt = "field_eq ''_id'' (VOid oid)"
  let ?set = "set_fields [(''archived'', VBool True), (''archivedAt'', VDate (clock e))]"
  let ?unset = "unset_fields [''archived'', ''archivedAt'']"
  have r_id: "?flt r"
    using assms(2) by (simp add: findOne_flt)
  have keep: "?flt (?set r)"
    using r_id by (simp add: field_eq_oid set_archive_id)
  have keep': "?flt (?unset r)"
    using r_id by (simp add: field_eq_oid unset_archive_id)
  obtain rs1 where a: "updateOne ?flt ?set (resumes s) = (1, rs1)"
    using updateOne_count[OF assms(2), of ?set] by (cases "updateOne ?flt ?set (resumes s)") simp
  have arch: "archiveResume e ident s =
                ((200, Obj [(''message'', VStr ''Resume archived successfully'')]),
                 s\<lparr>resumes := rs1\<rparr>)"
    using assms(1) a by (simp add: archiveResume_def)
  have "updateOne ?flt ?unset rs1 = updateOne ?flt (\<lambda>x. ?unset (?set x)) (resumes s)"
    using updateOne_twice[where f = ?set and g = ?unset, OF assms(2) keep] a by simp
  then have b: "updateOne ?flt ?unset rs1 = updateOne ?flt ?unset (resumes s)"
    by (simp only: unset_archive_set)
  obtain rs2 where c: "updateOne ?flt ?unset (resumes s) = (1, rs2)"
    using updateOne_count[OF assms(2), of ?unset]
    by (cases "updateOne ?flt ?unset (resumes s)") simp
  have rest: "restoreResume ident (s\<lparr>resumes := rs1\<rparr>) =
                ((200, Obj [(''message'', VStr ''Resume restored successfully'')]),
                 s\<lparr>resumes := rs2\<rparr>)"
    using assms(1) b c by (simp add: restoreResume_def)
  have found: "findOne ?flt rs2 = Some (?unset r)"
    using updateOne_found[where upd = ?unset, OF assms(2) keep'] c by simp
  have same: "rs2 = resumes s" if "map_of r ''archived'' = None" "map_of r ''archivedAt'' = None"
    using updateOne_fixed[where upd = ?unset, OF assms(2) unset_absent[OF that]] c by simp
  show ?thesis
    using arch rest found same by (simp add: unset_gone)
qed

theorem archive_then_restore_witness:
  "status (fst (archiveResume demo_env ''507f1f77bcf86cd799439011'' demo_store)) = 200
   \<and> status (fst (restoreResume ''507f1f77bcf86cd799439011''
                (snd (archiveResume demo_env ''507f1f77bcf86cd799439011'' demo_store)))) = 200
   \<and> snd (restoreResume ''507f1f77bcf86cd799439011''
            (snd (archiveResume demo_env ''507f1f77bcf86cd799439011'' demo_store))) = demo_store"
  using archive_then_restore[where ident = "''507f1f77bcf86cd799439011''"
          and oid = "''507f1f77bcf86cd799439011''" and s = demo_store and r = demo_resume
          and e = demo_env]
  by (simp add: oid_demo_resume demo_store_def demo_resume_def findOne_def field_eq_def
        field_ne_def)

text \<open>
  C7. Restore on a resume that exists and carries neither \<open>archived\<close> nor \<open>archivedAt\<close>
  answers 200 and leaves the store, and so the resume record, exactly as it was.
\<close>

theorem restore_never_archived:
  assumes "ObjectId_new ident = Some oid"
      and "findOne (field_eq ''_id'' (VOid oid)) (resumes s) = Some r"
      and "map_of r ''archived'' = None" and "map_of r ''archivedAt'' = None"
  shows "restoreResume ident s =
           ((200, Obj [(''message'', VStr ''Resume restored successfully'')]), s)"
  using assms(1)
    updateOne_fixed[where upd = "unset_fields [''archived'', ''archivedAt'']",
      OF assms(2) unset_absent[OF assms(3,4)]]
  by (simp add: restoreResume_def)

theorem restore_never_archived_witness:
  "restoreResume ''507f1f77bcf86cd799439011'' demo_store =
     ((200, Obj [(''message'', VStr ''Resume restored successfully'')]), demo_store)"
  by (rule restore_never_archived[where oid = "''507f1f77bcf86cd799439011''"
             and r = demo_resume])
     (simp_all add: oid_demo_resume demo_store_def demo_resume_def findOne_def field_eq_def)

section \<open>An identifier that names no resume\<close>

text \<open>
  C6, as stated, fails: the identifier \<open>abc\<close> names no resume, yet Archive, Restore and
  PermanentDelete answer 500, not 404, because \<open>new ObjectId(id)\<close> throws inside the
  \<open>try\<close> block.
\<close>

theorem malformed_identifier_counterexample:
  "ObjectId_new ''abc'' = None
   \<and> status (fst (archiveResume demo_env ''abc'' demo_store)) = 500
   \<and> status (fst (restoreResume ''abc'' demo_store)) = 500
   \<and> status (fst (deleteResume ''abc'' demo_store)) = 500"
  by (simp add: ObjectId_new_def archiveResume_def restoreResume_def deleteResume_def)

text \<open>
  C6, amended. For every identifier that names no resume, each of Archive, Restore and
  PermanentDelete fails and leaves the store unchanged. The failure is NotFound (404) when
  the identifier is a well-formed ObjectId string, and the server error (500) when it is
  not.
\<close>

theorem missing_resume_fails:
  assumes "\<forall>oid. ObjectId_new ident = Some oid
                 \<longrightarrow> findOne (field_eq ''_id'' (VOid oid)) (resumes s) = None"
  shows "status (fst (archiveResume e ident s)) = (if ObjectId_new ident = None then 500 else 404)
       \<and> status (fst (restoreResume ident s)) = (if ObjectId_new ident = None then 500 else 404)
       \<and> status (fst (deleteResume ident s)) = (if ObjectId_new ident = None then 500 else 404)
       \<and> snd (archiveResume e ident s) = s
       \<and> snd (restoreResume ident s) = s
       \<and> snd (deleteResume ident s) = s"
proof (cases "ObjectId_new ident")
  case None
  then show ?thesis
    by (simp add: archiveResume_def restoreResume_def deleteResume_def)
next
  case (Some oid)
  with assms have nf: "findOne (field_eq ''_id'' (VOid oid)) (resumes s) = None"
    by simp
  show ?thesis
    using Some by (simp add: archiveResume_def restoreResume_def deleteResume_def
                     updateOne_none[OF nf] deleteOne_none[OF nf])
qed

theorem missing_resume_fails_witness:
  "status (fst (archiveResume demo_env ''507f1f77bcf86cd799439012'' demo_store)) = 404
   \<and> status (fst (restoreResume ''507f1f77bcf86cd799439012'' demo_store)) = 404
   \<and> status (fst (deleteResume ''507f1f77bcf86cd799439012'' demo_store)) = 404
   \<and> snd (archiveResume demo_env ''507f1f77bcf86cd799439012'' demo_store) = demo_store
   \<and> snd (restoreResume ''507f1f77bcf86cd799439012'' demo_store) = demo_store
   \<and> snd (deleteResume ''507f1f77bcf86cd799439012'' demo_store) = demo_store"
  using missing_resume_fails[where ident = "''507f1f77bcf86cd799439012''" and s = demo_store
          and e = demo_env]
  by (simp add: oid_demo_missing demo_store_def demo_resume_def findOne_def field_eq_def)

section \<open>Deleting a user\<close>

text \<open>
  C4. When the identifier names a user whose role is \<open>admin\<close>, the delete answers 403
  (Forbidden) and the store is exactly as before.
\<close>

theorem admin_not_deletable:
  assumes "ObjectId_new ident = Some oid"
      and "findOne (field_eq ''_id'' (VOid oid)) (users s) = Some u"
      and "map_of u ''role'' = Some (VStr ''admin'')"
  shows "adminDeleteUser ident s =
           ((403, Obj [(''message'', VStr ''Cannot delete admin users'')]), s)"
  using assms by (simp add: adminDeleteUser_def adminDeleteUser_interleaved_def)

theorem admin_not_deletable_witness:
  "adminDeleteUser ''507f191e810c19729de860eb'' demo_store =
     ((403, Obj [(''message'', VStr ''Cannot delete admin users'')]), demo_store)"
  by (rule admin_not_deletable[where oid = "''507f191e810c19729de860eb''" and u = demo_admin])
     (simp_all add: oid_demo_admin demo_store_def demo_admin_def findOne_def field_eq_def)

text \<open>
  What the delete does for every identifier. Let the identifier name an existing user
  whose role is not \<open>admin\<close>, and let \<open>N\<close> resumes carry that very string as their
  \<open>userId\<close>. Then the delete answers 200 and reports \<open>deletedResumes = N\<close>; afterwards no
  user has that \<open>_id\<close> and no resume has that string as \<open>userId\<close>, and nothing else was
  removed. The store keeps \<open>_id\<close> unique in a collection, which is the fourth assumption.
\<close>

theorem delete_user_cascade:
  assumes "ObjectId_new ident = Some oid"
      and "findOne (field_eq ''_id'' (VOid oid)) (users s) = Some u"
      and "map_of u ''role'' \<noteq> Some (VStr ''admin'')"
      and "distinct (map (\<lambda>d. map_of d ''_id'') (users s))"
      and "length (find_all (field_eq ''userId'' (VStr ident)) (resumes s)) = N"
  shows "\<exists>s'. adminDeleteUser ident s =
                 ((200, Obj [(''message'',
                              VStr ''User and all associated resumes deleted successfully''),
                             (''deletedResumes'', VNum (int N))]), s')
             \<and> findOne (field_eq ''_id'' (VOid oid)) (users s') = None
             \<and> find_all (field_eq ''userId'' (VStr ident)) (resumes s') = []
             \<and> users s' = filter (\<lambda>d. \<not> field_eq ''_id'' (VOid oid) d) (users s)
             \<and> resumes s' = filter (\<lambda>r. \<not> field_eq ''userId'' (VStr ident) r) (resumes s)"
proof -
  have del: "deleteOne (field_eq ''_id'' (VOid oid)) (users s)
               = (1, filter (\<lambda>d. \<not> field_eq ''_id'' (VOid oid) d) (users s))"
    using deleteOne_unique[OF assms(4) assms(2)] .
  have gone: "findOne (field_eq ''_id'' (VOid oid))
                (filter (\<lambda>d. \<not> field_eq ''_id'' (VOid oid) d) (users s)) = None"
    by (simp add: findOne_def find_None_iff)
  show ?thesis
    using assms(1,2,3,5) del gone
    by (simp add: adminDeleteUser_def adminDeleteUser_interleaved_def deleteMany_def
          find_all_def)
qed

theorem delete_user_cascade_witness:
  "adminDeleteUser ''507f191e810c19729de860ea'' demo_store =
     ((200, Obj [(''message'', VStr ''User and all associated resumes deleted successfully''),
                 (''deletedResumes'', VNum 1)]),
      \<lparr>users = [demo_admin], resumes = []\<rparr>)"
  using delete_user_cascade[where ident = "''507f191e810c19729de860ea''"
          and oid = "''507f191e810c19729de860ea''" and s = demo_store and u = demo_user
          and N = 1]
  by (auto simp: oid_demo_user demo_store_def demo_user_def demo_admin_def demo_resume_def
        findOne_def find_all_def field_eq_def)

text \<open>
  C3 fails on the code. The lookup of the user reads the identifier as an ObjectId, which
  ignores letter case; the resume filter compares the string as it was given, although
  the handler's comment says \<open>Delete all resumes associated with this user\<close>. The sample
  user owns one resume, stored under the lower-case identifier the server hands out. The
  delete with the upper-case spelling of that identifier finds the user, answers 200 with
  \<open>deletedResumes = 0\<close> and removes the user, and the resume is still in the store and
  still listed for that user.
\<close>

theorem delete_user_other_spelling_keeps_resumes:
  "ObjectId_new ''507F191E810C19729DE860EA'' = Some ''507f191e810c19729de860ea''
   \<and> findOne (field_eq ''_id'' (VOid ''507f191e810c19729de860ea'')) (users demo_store)
       = Some demo_user
   \<and> map_of demo_user ''role'' = Some (VStr ''user'')
   \<and> find_all (field_eq ''userId'' (VStr ''507f191e810c19729de860ea'')) (resumes demo_store)
       = [demo_resume]
   \<and> adminDeleteUser ''507F191E810C19729DE860EA'' demo_store =
       ((200, Obj [(''message'', VStr ''User and all associated resumes deleted successfully''),
                   (''deletedResumes'', VNum 0)]),
        \<lparr>users = [demo_admin], resumes = [demo_resume]\<rparr>)
   \<and> returned (getUserResumes ''507f191e810c19729de860ea''
                 \<lparr>users = [demo_admin], resumes = [demo_resume]\<rparr>) = [with_id demo_resume]"
  by (simp add: adminDeleteUser_def adminDeleteUser_interleaved_def ObjectId_new_def is_hex_def
        lower_hex_def demo_store_def demo_user_def demo_admin_def demo_resume_def findOne_def
        find_all_def field_eq_def field_ne_def deleteMany_def returned_def getUserResumes_def
        sort_desc_def)

text \<open>
  C9. In the delete of a user the resumes are deleted before the user delete is attempted:
  the user delete runs on the store \<open>s2\<close> that \<open>deleteMany\<close> has already changed. Whenever
  that final delete finds nothing to remove, the answer is 404 \<open>User not found\<close> and the
  store that is left is \<open>s2\<close>, with the resumes gone. This needs another request to remove
  the user between the lookup and the final delete; the instance below has a second delete
  of the same user served in that gap, and ends with 404 and a store without the resume
  that was there before.
\<close>

theorem cascade_not_found_after_resumes_deleted:
  assumes "ObjectId_new ident = Some oid"
      and "findOne (field_eq ''_id'' (VOid oid)) (users s) = Some u"
      and "map_of u ''role'' \<noteq> Some (VStr ''admin'')"
      and "s2 = between2 ((between1 s)\<lparr>resumes :=
                   filter (\<lambda>r. \<not> field_eq ''userId'' (VStr ident) r) (resumes (between1 s))\<rparr>)"
      and "findOne (field_eq ''_id'' (VOid oid)) (users s2) = None"
  shows "adminDeleteUser_interleaved between1 between2 ident s =
           ((404, Obj [(''message'', VStr ''User not found'')]), s2)"
  using assms(1,2,3) deleteOne_none[OF assms(5)] assms(4)
  by (simp add: adminDeleteUser_interleaved_def deleteMany_def Let_def)

theorem cascade_not_found_after_resumes_deleted_witness:
  "adminDeleteUser_interleaved undisturbed concurrent_delete ''507f191e810c19729de860ea'' demo_store
     = ((404, Obj [(''message'', VStr ''User not found'')]), \<lparr>users = [demo_admin], resumes = []\<rparr>)
   \<and> resumes demo_store = [demo_resume]"
  using cascade_not_found_after_resumes_deleted[where ident = "''507f191e810c19729de860ea''"
          and oid = "''507f191e810c19729de860ea''" and s = demo_store and u = demo_user
          and ?between1.0 = undisturbed and ?between2.0 = concurrent_delete
          and ?s2.0 = "\<lparr>users = [demo_admin], resumes = []\<rparr>"]
  by (simp add: oid_demo_user demo_store_def demo_user_def demo_admin_def demo_resume_def
        findOne_def field_eq_def undisturbed_def concurrent_delete_def adminDeleteUser_def
        adminDeleteUser_interleaved_def deleteMany_def Let_def)


text \<open>Served alone, the delete of an existing user who is no administrator always answers
  200: the final 404 needs another request in between.\<close>

lemma adminDeleteUser_alone:
  assumes "ObjectId_new ident = Some oid"
      and "findOne (field_eq ''_id'' (VOid oid)) (users s) = Some u"
      and "map_of u ''role'' \<noteq> Some (VStr ''admin'')"
  shows "status (fst (adminDeleteUser ident s)) = 200"
proof -
  obtain us where "deleteOne (field_eq ''_id'' (VOid oid)) (users s) = (1, us)"
    using deleteOne_count[OF assms(2)]
    by (cases "deleteOne (field_eq ''_id'' (VOid oid)) (users s)") simp
  then show ?thesis
    using assms
    by (simp add: adminDeleteUser_def adminDeleteUser_interleaved_def deleteMany_def Let_def)
qed

section \<open>Login\<close>

lemma query_condition_scalar:
  assumes "scalar_value x = Some v"
  shows "query_condition e x = Some (\<lambda>field. bson field = v)"
proof (cases x)
  case None
  with assms show ?thesis
    by (auto simp: scalar_value_def query_condition_def literal_match_def fun_eq_iff)
next
  case (Some y)
  with assms show ?thesis
    by (cases y) (auto simp: scalar_value_def query_condition_def literal_match_def fun_eq_iff)
qed

lemma login_unknown:
  "query_condition e email = Some c \<Longrightarrow>
   findOne (\<lambda>u. c (map_of u ''email'')) (users s) = None \<Longrightarrow>
   login e email password s = ((401, Obj [(''message'', VStr ''Invalid email or password'')]), s)"
  by (simp add: login_def)

lemma login_known:
  "query_condition e email = Some c \<Longrightarrow>
   findOne (\<lambda>u. c (map_of u ''email'')) (users s) = Some user \<Longrightarrow>
   login e email password s =
     (case bcrypt_compare e password (map_of user ''password'') of
        None \<Rightarrow> ((500, Obj [(''message'', VStr ''Server error during login'')]), s)
      | Some ok \<Rightarrow>
          if ok then ((200, Obj (spread_with (AList.delete ''password'' user) ''id''
                                   (map_of user ''_id''))), s)
          else ((401, Obj [(''message'', VStr ''Invalid email or password'')]), s))"
  by (simp add: login_def split: option.splits)

lemma spread_without_password:
  "map_of (spread_with (AList.delete ''password'' d) ''id'' v) ''password'' = None"
  by (cases v) (simp_all add: spread_with_def delete_conv' update_conv')

text \<open>
  C5, as stated, fails in two ways. The handler passes \<open>req.body.email\<close> into the query as
  it is, so the operator object \<open>{"$ne": null}\<close> finds the first user that has any email:
  with that user's password the login answers 200 although no user has that email. And a
  request without a password answers 500 when the email is known (\<open>bcrypt.compare\<close>
  throws) and 401 when it is not, so the two failures differ.
\<close>

theorem login_operator_email_counterexample:
  "status (fst (login demo_env (Some (JObj [(''$ne'', JNull)])) (Some (JStr ''admin123''))
                  demo_store)) = 200
   \<and> \<not> literal_match (JObj [(''$ne'', JNull)]) (map_of demo_admin ''email'')
   \<and> \<not> literal_match (JObj [(''$ne'', JNull)]) (map_of demo_user ''email'')
   \<and> status (fst (login demo_env (Some (JStr ''ada@example.com'')) None demo_store)) = 500
   \<and> status (fst (login demo_env (Some (JStr ''eve@example.com'')) None demo_store)) = 401"
  by (simp add: login_def query_condition_def operator_condition_def is_operator_def
        literal_match_def bson_def findOne_def bcrypt_compare_def demo_env_def demo_store_def
        demo_admin_def demo_user_def)

text \<open>
  C5, amended. Let the email of the request be a JSON scalar (or absent), and let emails be
  unique among users (the store's unique index). Then login answers 200 exactly when some
  user has that email and \<open>bcrypt.compare\<close> accepts the password against that user's
  stored hash. An unknown email and a password that \<open>bcrypt.compare\<close> rejects give one and
  the same response, 401 with the same message. When the email is known and the password
  or the stored hash is not a string, the answer is 500. On success the returned object
  has no \<open>password\<close> field. The store is never changed.
\<close>

theorem login_scalar_email:
  assumes "distinct (map email_key (users s))"
      and "scalar_value email = Some v"
  shows "((status (fst (login e email password s)) = 200) =
            (\<exists>u \<in> set (users s). email_key u = v
                \<and> bcrypt_compare e password (map_of u ''password'') = Some True))
       \<and> ((\<forall>u \<in> set (users s). email_key u \<noteq> v) \<longrightarrow>
            fst (login e email password s)
              = (401, Obj [(''message'', VStr ''Invalid email or password'')]))
       \<and> (\<forall>u \<in> set (users s). email_key u = v
              \<and> bcrypt_compare e password (map_of u ''password'') = Some False \<longrightarrow>
            fst (login e email password s)
              = (401, Obj [(''message'', VStr ''Invalid email or password'')]))
       \<and> (\<forall>u \<in> set (users s). email_key u = v
              \<and> bcrypt_compare e password (map_of u ''password'') = None \<longrightarrow>
            fst (login e email password s)
              = (500, Obj [(''message'', VStr ''Server error during login'')]))
       \<and> (status (fst (login e email password s)) = 200 \<longrightarrow>
            (\<exists>d. body_of (fst (login e email password s)) = Obj d \<and> map_of d ''password'' = None))
       \<and> snd (login e email password s) = s"
proof -
  let ?c = "\<lambda>field. bson field = v"
  have q: "query_condition e email = Some ?c"
    using assms(2) by (rule query_condition_scalar)
  have key: "(bson (map_of u ''email'') = v) = (email_key u = v)" for u
    by (simp add: email_key_def)
  show ?thesis
  proof (cases "findOne (\<lambda>u. ?c (map_of u ''email'')) (users s)")
    case None
    then have no: "\<forall>u \<in> set (users s). email_key u \<noteq> v"
      by (simp add: findOne_None_iff key)
    show ?thesis
      unfolding login_unknown[OF q None] using no by simp
  next
    case (Some user)
    have mem: "user \<in> set (users s)"
      using Some by (rule findOne_mem)
    have em: "email_key user = v"
      using findOne_flt[OF Some] by (simp add: key)
    have only: "u = user" if "u \<in> set (users s)" "email_key u = v" for u
    proof -
      have "findOne (\<lambda>u. ?c (map_of u ''email'')) (users s) = Some u"
        by (rule findOne_unique[where key = email_key, OF assms(1) that(1) _ that(2)])
           (simp add: key)
      with Some show ?thesis by simp
    qed
    have ex: "(\<exists>u \<in> set (users s). email_key u = v
                  \<and> bcrypt_compare e password (map_of u ''password'') = Some True)
              = (bcrypt_compare e password (map_of user ''password'') = Some True)"
      using mem em only by blast
    have all: "(\<forall>u \<in> set (users s). email_key u = v
                \<and> bcrypt_compare e password (map_of u ''password'') = r \<longrightarrow> R)
              = (bcrypt_compare e password (map_of user ''password'') = r \<longrightarrow> R)" for r R
      using mem em only by blast
    have some: "\<not> (\<forall>u \<in> set (users s). email_key u \<noteq> v)"
      using mem em by blast
    show ?thesis
      unfolding login_known[OF q Some] ex all
      using some
      by (cases "bcrypt_compare e password (map_of user ''password'')")
         (simp_all add: spread_without_password)
  qed
qed

theorem login_scalar_email_witness:
  "status (fst (login demo_env (Some (JStr ''ada@example.com'')) (Some (JStr ''secret''))
                  demo_store)) = 200
   \<and> fst (login demo_env (Some (JStr ''ada@example.com'')) (Some (JStr ''guess'')) demo_store)
       = (401, Obj [(''message'', VStr ''Invalid email or password'')])
   \<and> fst (login demo_env (Some (JStr ''eve@example.com'')) (Some (JStr ''guess'')) demo_store)
       = (401, Obj [(''message'', VStr ''Invalid email or password'')])
   \<and> fst (login demo_env (Some (JStr ''ada@example.com'')) None demo_store)
       = (500, Obj [(''message'', VStr ''Server error during login'')])"
  using login_scalar_email[where s = demo_store and e = demo_env and v = "VStr ''ada@example.com''"
          and email = "Some (JStr ''ada@example.com'')" and password = "Some (JStr ''secret'')"]
        login_scalar_email[where s = demo_store and e = demo_env and v = "VStr ''ada@example.com''"
          and email = "Some (JStr ''ada@example.com'')" and password = "Some (JStr ''guess'')"]
        login_scalar_email[where s = demo_store and e = demo_env and v = "VStr ''eve@example.com''"
          and email = "Some (JStr ''eve@example.com'')" and password = "Some (JStr ''guess'')"]
        login_scalar_email[where s = demo_store and e = demo_env and v = "VStr ''ada@example.com''"
          and email = "Some (JStr ''ada@example.com'')" and password = None]
  by (simp add: demo_store_def demo_user_def demo_admin_def demo_env_def email_key_def bson_def
        bcrypt_compare_def scalar_value_def)

section \<open>Saving a resume\<close>

lemma saveResume_fresh:
  "\<not> list_ex (field_eq ''_id'' (VOid (generated_id e))) (resumes s) \<Longrightarrow>
   saveResume e userId fileName description fileContent s =
     ((201, Obj (to_json [(''userId'', userId), (''fileName'', fileName),
                          (''description'', description), (''fileContent'', fileContent),
                          (''uploadedAt'', Some (VDate (clock e))),
                          (''_id'', Some (VOid (generated_id e))),
                          (''id'', Some (VOid (generated_id e)))])),
      s\<lparr>resumes := resumes s @
           [[(''_id'', VOid (generated_id e)), (''userId'', bson userId),
             (''fileName'', bson fileName), (''description'', bson description),
             (''fileContent'', bson fileContent), (''uploadedAt'', VDate (clock e))]]\<rparr>)"
  by (simp add: saveResume_def insertOne_def to_bson_def Let_def bson_Some)

text \<open>
  C10. Saving a resume never looks at the users: for every \<open>userId\<close>, whether or not it
  names a user, the request answers 201 and appends the resume with that \<open>userId\<close>, and the
  response is the same whatever the \<open>users\<close> collection holds. The one assumption is that
  the ObjectId the store generates is not already taken.
\<close>

theorem saveResume_any_owner:
  assumes "\<not> list_ex (field_eq ''_id'' (VOid (generated_id e))) (resumes s)"
  shows "status (fst (saveResume e userId fileName description fileContent s)) = 201
       \<and> snd (saveResume e userId fileName description fileContent s) =
           s\<lparr>resumes := resumes s @
               [[(''_id'', VOid (generated_id e)), (''userId'', bson userId),
                 (''fileName'', bson fileName), (''description'', bson description),
                 (''fileContent'', bson fileContent), (''uploadedAt'', VDate (clock e))]]\<rparr>
       \<and> fst (saveResume e userId fileName description fileContent (s\<lparr>users := us\<rparr>))
           = fst (saveResume e userId fileName description fileContent s)"
  using saveResume_fresh[OF assms, of userId fileName description fileContent]
        saveResume_fresh[of e "s\<lparr>users := us\<rparr>" userId fileName description fileContent] assms
  by simp

theorem saveResume_any_owner_witness:
  "status (fst (saveResume demo_env (Some (VStr ''000000000000000000000000''))
                  (Some (VStr ''cv.pdf'')) None (Some (VStr ''JVBERi0='')) demo_store)) = 201
   \<and> findOne (field_eq ''_id'' (VOid ''000000000000000000000000'')) (users demo_store) = None
   \<and> resumes (snd (saveResume demo_env (Some (VStr ''000000000000000000000000''))
                      (Some (VStr ''cv.pdf'')) None (Some (VStr ''JVBERi0='')) demo_store))
       = [demo_resume,
          [(''_id'', VOid ''65a1b2c3d4e5f60718293a4b''),
           (''userId'', VStr ''000000000000000000000000''),
           (''fileName'', VStr ''cv.pdf''), (''description'', VNull),
           (''fileContent'', VStr ''JVBERi0=''), (''uploadedAt'', VDate 1700000000000)]]"
  using saveResume_any_owner[where e = demo_env and s = demo_store
          and userId = "Some (VStr ''000000000000000000000000'')"
          and fileName = "Some (VStr ''cv.pdf'')" and description = None
          and fileContent = "Some (VStr ''JVBERi0='')"]
  by (simp add: demo_store_def demo_env_def demo_resume_def demo_user_def demo_admin_def
        field_eq_def findOne_def bson_def)

section \<open>Listing active and archived resumes\<close>

lemma set_insert_desc: "set (insert_desc k d ds) = insert d (set ds)"
  by (induction ds) auto

lemma set_sort_desc: "set (sort_desc k ds) = set ds"
  by (induction ds) (simp_all add: sort_desc_def set_insert_desc)

lemma with_id_other: "k \<noteq> ''id'' \<Longrightarrow> map_of (with_id d) k = map_of d k"
  by (cases "map_of d ''_id''") (simp_all add: with_id_def spread_with_def delete_conv' update_conv')

lemma field_eq_true: "field_eq k (VBool True) d = (map_of d k = Some (VBool True))"
  by (auto simp: field_eq_def split: option.splits)

lemma returned_active:
  "set (returned (getUserResumes userId s)) =
     with_id ` {r \<in> set (resumes s). field_eq ''userId'' (VStr userId) r
                  \<and> map_of r ''archived'' \<noteq> Some (VBool True)}"
  by (auto simp: returned_def getUserResumes_def find_all_def set_sort_desc field_ne_def
        field_eq_true)

lemma returned_archived:
  "set (returned (getArchivedResumes userId s)) =
     with_id ` {r \<in> set (resumes s). field_eq ''userId'' (VStr userId) r
                  \<and> map_of r ''archived'' = Some (VBool True)}"
  by (auto simp: returned_def getArchivedResumes_def find_all_def set_sort_desc field_eq_true)

text \<open>
  C2. For every store and every \<open>userId\<close>: no resume in the active list has \<open>archived\<close>
  equal to true; every resume in the archived list has \<open>archived\<close> equal to true; and a
  resume of that user with no \<open>archived\<close> field is in the active list and not in the
  archived one.
\<close>

theorem listing_respects_archived:
  "(\<forall>d \<in> set (returned (getUserResumes userId s)). map_of d ''archived'' \<noteq> Some (VBool True))
   \<and> (\<forall>d \<in> set (returned (getArchivedResumes userId s)).
         map_of d ''archived'' = Some (VBool True))
   \<and> (\<forall>r \<in> set (resumes s).
         field_eq ''userId'' (VStr userId) r \<and> map_of r ''archived'' = None \<longrightarrow>
           with_id r \<in> set (returned (getUserResumes userId s))
         \<and> with_id r \<notin> set (returned (getArchivedResumes userId s)))"
proof -
  have a: "\<forall>d \<in> set (returned (getUserResumes userId s)).
             map_of d ''archived'' \<noteq> Some (VBool True)"
    unfolding returned_active by (auto simp: with_id_other)
  have b: "\<forall>d \<in> set (returned (getArchivedResumes userId s)).
             map_of d ''archived'' = Some (VBool True)"
    unfolding returned_archived by (auto simp: with_id_other)
  have c: "with_id r \<in> set (returned (getUserResumes userId s))"
    if "r \<in> set (resumes s)" "field_eq ''userId'' (VStr userId) r" "map_of r ''archived'' = None"
    for r
    unfolding returned_active using that by auto
  have d: "with_id r \<notin> set (returned (getArchivedResumes userId s))"
    if "map_of r ''archived'' = None" for r
  proof
    assume "with_id r \<in> set (returned (getArchivedResumes userId s))"
    with b have "map_of (with_id r) ''archived'' = Some (VBool True)" by blast
    with that show False by (simp add: with_id_other)
  qed
  show ?thesis using a b c d by blast
qed

theorem listing_respects_archived_witness:
  "returned (getUserResumes ''507f191e810c19729de860ea'' demo_store) = [with_id demo_resume]
   \<and> returned (getArchivedResumes ''507f191e810c19729de860ea'' demo_store) = []
   \<and> map_of (with_id demo_resume) ''archived'' \<noteq> Some (VBool True)"
  using listing_respects_archived[where userId = "''507f191e810c19729de860ea''"
          and s = demo_store]
  by (simp add: demo_store_def demo_resume_def returned_def getUserResumes_def
        getArchivedResumes_def find_all_def sort_desc_def field_eq_def field_ne_def
        with_id_def spread_with_def)

section \<open>No password in a response\<close>

lemma spread_with_other: "k' \<noteq> k \<Longrightarrow> map_of (spread_with d k v) k' = map_of d k'"
  by (cases v) (simp_all add: spread_with_def delete_conv' update_conv')

lemma has_password_spread:
  "k \<noteq> ''password'' \<Longrightarrow> has_password (spread_with d k v) = has_password d"
  by (simp add: has_password_def spread_with_other)

lemma has_password_with_id: "has_password (with_id d) = has_password d"
  by (simp add: with_id_def has_password_spread)

lemma has_password_delete: "\<not> has_password (AList.delete ''password'' d)"
  by (simp add: has_password_def delete_conv')

lemma register_hides_password:
  "\<not> exposes_password (body_of (fst (register e name email password s)))"
  by (cases name; cases email)
     (simp_all add: register_def exposes_password_def has_password_def to_json_def Let_def
        split: option.splits)

lemma login_hides_password:
  "\<not> exposes_password (body_of (fst (login e email password s)))"
  by (simp add: login_def exposes_password_def has_password_spread has_password_delete
        has_password_def[of "[(''message'', _)]"] split: option.splits)

lemma saveResume_hides_password:
  "\<not> exposes_password (body_of (fst (saveResume e userId fileName description fileContent s)))"
  by (cases userId; cases fileName; cases description; cases fileContent)
     (simp_all add: saveResume_def exposes_password_def has_password_def to_json_def Let_def
        split: option.splits)

lemma getUserResumes_hides_password:
  "\<forall>r \<in> set (resumes s). \<not> has_password r \<Longrightarrow>
   \<not> exposes_password (body_of (fst (getUserResumes userId s)))"
  by (auto simp: getUserResumes_def exposes_password_def list_ex_iff set_sort_desc find_all_def
        has_password_with_id)

lemma getArchivedResumes_hides_password:
  "\<forall>r \<in> set (resumes s). \<not> has_password r \<Longrightarrow>
   \<not> exposes_password (body_of (fst (getArchivedResumes userId s)))"
  by (auto simp: getArchivedResumes_def exposes_password_def list_ex_iff set_sort_desc
        find_all_def has_password_with_id)

lemma adminGetUsers_hides_password:
  "\<not> exposes_password (body_of (fst (adminGetUsers s)))"
  by (auto simp: adminGetUsers_def exposes_password_def list_ex_iff find_all_def
        has_password_with_id has_password_delete)

lemma adminGetResumes_hides_password:
  "\<forall>r \<in> set (resumes s). \<not> has_password r \<Longrightarrow>
   \<not> exposes_password (body_of (fst (adminGetResumes e s)))"
  by (auto simp: adminGetResumes_def exposes_password_def list_ex_iff set_sort_desc find_all_def
        has_password_with_id has_password_spread Let_def)

lemma adminStatus_hides_password: "\<not> exposes_password (body_of (fst (adminStatus s)))"
  by (simp add: adminStatus_def exposes_password_def has_password_def split: option.splits)

lemma adminCreate_hides_password:
  "\<not> exposes_password (body_of (fst (adminCreate e email password name s)))"
  by (simp add: adminCreate_def exposes_password_def has_password_def split: option.splits)

lemma archiveResume_hides_password:
  "\<not> exposes_password (body_of (fst (archiveResume e ident s)))"
  by (simp add: archiveResume_def exposes_password_def has_password_def
        split: option.splits prod.splits)

lemma adminArchiveResume_hides_password:
  "\<not> exposes_password (body_of (fst (adminArchiveResume e ident s)))"
  by (simp add: adminArchiveResume_def exposes_password_def has_password_def
        split: option.splits prod.splits)

lemma restoreResume_hides_password:
  "\<not> exposes_password (body_of (fst (restoreResume ident s)))"
  by (simp add: restoreResume_def exposes_password_def has_password_def
        split: option.splits prod.splits)

lemma deleteResume_hides_password:
  "\<not> exposes_password (body_of (fst (deleteResume ident s)))"
  by (simp add: deleteResume_def exposes_password_def has_password_def
        split: option.splits prod.splits)

lemma adminDeleteResume_hides_password:
  "\<not> exposes_password (body_of (fst (adminDeleteResume ident s)))"
  by (simp add: adminDeleteResume_def exposes_password_def has_password_def
        split: option.splits prod.splits)

lemma adminDeleteUser_hides_password:
  "\<not> exposes_password (body_of (fst (adminDeleteUser_interleaved b1 b2 ident s)))"
  by (simp add: adminDeleteUser_interleaved_def exposes_password_def has_password_def Let_def
        split: option.splits prod.splits)

text \<open>
  C8. Whatever the request and its inputs, no object of the response has a field named
  \<open>password\<close>: registration and login strip it from the user they return, the user list
  projects it out, the joined resume list takes only name and email from a user, and every
  other answer is a message or a list of resumes. The assumption says that resume documents
  have no field of that name; the server only ever writes resumes with its own fixed
  fields, and \<open>reachable_resumes_plain\<close> below shows that the assumption holds in every
  store the server reaches from empty collections.
\<close>

theorem no_password_in_response:
  assumes "\<forall>r \<in> set (resumes s). \<not> has_password r"
  shows "\<not> exposes_password (body_of (fst (handle e req s)))"
proof (cases req)
  case (GetUserResumes userId)
  then show ?thesis using getUserResumes_hides_password[OF assms] by simp
next
  case AdminGetResumes
  then show ?thesis using adminGetResumes_hides_password[OF assms] by simp
next
  case (GetArchivedResumes userId)
  then show ?thesis using getArchivedResumes_hides_password[OF assms] by simp
qed (simp_all add: register_hides_password login_hides_password saveResume_hides_password
       adminGetUsers_hides_password adminStatus_hides_password adminCreate_hides_password
       archiveResume_hides_password adminArchiveResume_hides_password
       restoreResume_hides_password deleteResume_hides_password
       adminDeleteResume_hides_password adminDeleteUser_hides_password adminDeleteUser_def)


theorem no_password_in_response_witness:
  "has_password demo_user
   \<and> status (fst (handle demo_env (Login (Some (JStr ''ada@example.com''))
                                     (Some (JStr ''secret''))) demo_store)) = 200
   \<and> \<not> exposes_password (body_of (fst (handle demo_env
          (Login (Some (JStr ''ada@example.com'')) (Some (JStr ''secret''))) demo_store)))
   \<and> \<not> exposes_password (body_of (fst (handle demo_env
          (GetUserResumes ''507f191e810c19729de860ea'') demo_store)))"
  using no_password_in_response[where s = demo_store and e = demo_env
          and req = "Login (Some (JStr ''ada@example.com'')) (Some (JStr ''secret''))"]
        no_password_in_response[where s = demo_store and e = demo_env
          and req = "GetUserResumes ''507f191e810c19729de860ea''"]
  by (simp add: demo_store_def demo_resume_def demo_user_def demo_admin_def demo_env_def
        has_password_def login_def findOne_def field_eq_def bson_def bcrypt_compare_def
        query_condition_def literal_match_def)

section \<open>What holds in every reachable store\<close>

text \<open>
  The theorems above assume of the store that resumes carry no \<open>password\<close> field, that
  \<open>_id\<close> is unique among users, and that emails are unique among users. Each holds for
  the empty store and is kept by \<open>initializeAdmin\<close> and by every request.
\<close>

lemma updateOne_set: "set (snd (updateOne flt upd ds)) \<subseteq> set ds \<union> upd ` set ds"
  by (induction ds) (auto split: prod.splits)

lemma deleteOne_set: "set (snd (deleteOne flt ds)) \<subseteq> set ds"
  by (induction ds) (auto split: prod.splits)

lemma has_password_set_archive:
  "has_password (set_fields [(''archived'', a), (''archivedAt'', b)] d) = has_password d"
  by (simp add: has_password_def set_fields_def update_conv')

lemma has_password_unset_archive:
  "has_password (unset_fields [''archived'', ''archivedAt''] d) = has_password d"
  by (simp add: has_password_def unset_fields_def delete_conv')

lemma updateOne_plain:
  "\<forall>r \<in> set ds. \<not> has_password r \<Longrightarrow> \<forall>d. has_password (upd d) = has_password d \<Longrightarrow>
   \<forall>r \<in> set (snd (updateOne flt upd ds)). \<not> has_password r"
  using updateOne_set[of flt upd ds] by auto

lemma deleteOne_plain:
  "\<forall>r \<in> set ds. \<not> has_password r \<Longrightarrow> \<forall>r \<in> set (snd (deleteOne flt ds)). \<not> has_password r"
  using deleteOne_set[of flt ds] by auto

lemma archiveResume_resumes:
  "resumes (snd (archiveResume e ident s)) = resumes s \<or>
   resumes (snd (archiveResume e ident s)) =
     snd (updateOne (field_eq ''_id'' (VOid (the (ObjectId_new ident))))
            (set_fields [(''archived'', VBool True), (''archivedAt'', VDate (clock e))])
            (resumes s))"
  by (simp add: archiveResume_def split: option.splits prod.splits)

lemma adminArchiveResume_eq: "adminArchiveResume e ident s = archiveResume e ident s"
  by (simp add: adminArchiveResume_def archiveResume_def)

lemma restoreResume_resumes:
  "resumes (snd (restoreResume ident s)) = resumes s \<or>
   resumes (snd (restoreResume ident s)) =
     snd (updateOne (field_eq ''_id'' (VOid (the (ObjectId_new ident))))
            (unset_fields [''archived'', ''archivedAt'']) (resumes s))"
  by (simp add: restoreResume_def split: option.splits prod.splits)

lemma deleteResume_resumes:
  "resumes (snd (deleteResume ident s)) = resumes s \<or>
   resumes (snd (deleteResume ident s)) =
     snd (deleteOne (field_eq ''_id'' (VOid (the (ObjectId_new ident)))) (resumes s))"
  by (simp add: deleteResume_def split: option.splits prod.splits)

lemma adminDeleteResume_resumes:
  "resumes (snd (adminDeleteResume ident s)) = resumes (snd (deleteResume ident s))"
  by (simp add: deleteResume_def adminDeleteResume_def split: option.splits prod.splits)

lemma adminDeleteUser_resumes:
  "set (resumes (snd (adminDeleteUser ident s))) \<subseteq> set (resumes s)"
  by (auto simp: adminDeleteUser_def adminDeleteUser_interleaved_def deleteMany_def Let_def
        split: option.splits prod.splits)

lemma saveResume_resumes:
  "resumes (snd (saveResume e userId fileName description fileContent s)) = resumes s \<or>
   resumes (snd (saveResume e userId fileName description fileContent s)) =
     resumes s @ [[(''_id'', VOid (generated_id e)), (''userId'', bson userId),
                   (''fileName'', bson fileName), (''description'', bson description),
                   (''fileContent'', bson fileContent), (''uploadedAt'', VDate (clock e))]]"
  by (simp add: saveResume_def insertOne_def to_bson_def Let_def bson_Some)

lemma other_requests_resumes:
  "resumes (snd (register e name email password s)) = resumes s"
  "resumes (snd (login e login_email login_password s)) = resumes s"
  "resumes (snd (getUserResumes userId s)) = resumes s"
  "resumes (snd (getArchivedResumes userId s)) = resumes s"
  "resumes (snd (adminGetUsers s)) = resumes s"
  "resumes (snd (adminGetResumes e s)) = resumes s"
  "resumes (snd (adminStatus s)) = resumes s"
  "resumes (snd (adminCreate e email password name s)) = resumes s"
  "resumes (initializeAdmin e s) = resumes s"
  by (simp_all add: register_def login_def getUserResumes_def getArchivedResumes_def
        adminGetUsers_def adminGetResumes_def adminStatus_def adminCreate_def
        initializeAdmin_def Let_def split: option.splits)

lemma handle_keeps_resumes_plain:
  assumes "\<forall>r \<in> set (resumes s). \<not> has_password r"
  shows "\<forall>r \<in> set (resumes (snd (handle e req s))). \<not> has_password r"
proof (cases req)
  case (SaveResume userId fileName description fileContent)
  then show ?thesis
    using assms saveResume_resumes[of e userId fileName description fileContent s]
    by (auto simp: has_password_def)
next
  case (ArchiveResume ident)
  then show ?thesis
    using archiveResume_resumes[of e ident s]
      updateOne_plain[OF assms, of "set_fields [(''archived'', VBool True),
        (''archivedAt'', VDate (clock e))]"] assms
    by (auto simp: has_password_set_archive)
next
  case (AdminArchiveResume ident)
  then show ?thesis
    using archiveResume_resumes[of e ident s]
      updateOne_plain[OF assms, of "set_fields [(''archived'', VBool True),
        (''archivedAt'', VDate (clock e))]"] assms
    by (auto simp: has_password_set_archive adminArchiveResume_eq)
next
  case (RestoreResume ident)
  then show ?thesis
    using restoreResume_resumes[of ident s]
      updateOne_plain[OF assms, of "unset_fields [''archived'', ''archivedAt'']"] assms
    by (auto simp: has_password_unset_archive)
next
  case (DeleteResume ident)
  then show ?thesis
    using deleteResume_resumes[of ident s] deleteOne_plain[OF assms] assms by auto
next
  case (AdminDeleteResume ident)
  then show ?thesis
    using deleteResume_resumes[of ident s] deleteOne_plain[OF assms] assms
    by (auto simp: adminDeleteResume_resumes)
next
  case (AdminDeleteUser ident)
  then show ?thesis
    using adminDeleteUser_resumes[of ident s] assms by auto
qed (simp_all add: other_requests_resumes assms)

lemma reachable_resumes_plain: "reachable s \<Longrightarrow> \<forall>r \<in> set (resumes s). \<not> has_password r"
proof (induction rule: reachable.induct)
  case start
  show ?case by simp
next
  case (boot s e)
  then show ?case by (simp add: other_requests_resumes)
next
  case (request s e req)
  from request.IH show ?case by (rule handle_keeps_resumes_plain)
qed


lemma deleteOne_distinct: "distinct (map f ds) \<Longrightarrow> distinct (map f (snd (deleteOne flt ds)))"
proof (induction ds)
  case Nil
  show ?case by simp
next
  case (Cons d ds)
  then show ?case
    using deleteOne_set[of flt ds] by (auto split: prod.splits)
qed

lemma insertOne_unique_ids:
  assumes "distinct (map (\<lambda>d. map_of d ''_id'') ds)" and "insertOne b n d ds = Some ds'"
  shows "distinct (map (\<lambda>d. map_of d ''_id'') ds')"
proof -
  have fresh: "\<forall>x \<in> set ds. map_of x ''_id'' \<noteq> Some (VOid n)"
    and new: "ds' = ds @ [(''_id'', VOid n) # d]"
    using assms(2) by (auto simp: insertOne_def list_ex_iff field_eq_oid split: if_splits)
  show ?thesis
    unfolding new using assms(1) fresh by auto
qed

lemma insertOne_unique_emails:
  assumes "distinct (map email_key ds)" and "insertOne True n d ds = Some ds'"
  shows "distinct (map email_key ds')"
proof -
  have fresh: "\<forall>x \<in> set ds. email_key x \<noteq> email_key d"
    and new: "ds' = ds @ [(''_id'', VOid n) # d]"
    using assms(2) by (auto simp: insertOne_def list_ex_iff split: if_splits)
  have "email_key ((''_id'', VOid n) # d) = email_key d"
    by (simp add: email_key_def)
  then show ?thesis
    unfolding new using assms(1) fresh by auto
qed

lemma adminDeleteUser_users:
  "users (snd (adminDeleteUser ident s)) = users s \<or>
   users (snd (adminDeleteUser ident s)) =
     snd (deleteOne (field_eq ''_id'' (VOid (the (ObjectId_new ident)))) (users s))"
  by (simp add: adminDeleteUser_def adminDeleteUser_interleaved_def deleteMany_def Let_def
        split: option.splits prod.splits)

lemma handle_users:
  "users (snd (handle e req s)) = users s
   \<or> (\<exists>n d. insertOne True n d (users s) = Some (users (snd (handle e req s))))
   \<or> (\<exists>flt. users (snd (handle e req s)) = snd (deleteOne flt (users s)))"
proof (cases req)
  case (Register name email password)
  then show ?thesis
    by (auto simp: register_def Let_def split: option.splits)
next
  case (AdminCreate email password name)
  then show ?thesis
    by (auto simp: adminCreate_def split: option.splits)
next
  case (AdminDeleteUser ident)
  then show ?thesis
    using adminDeleteUser_users[of ident s] by auto
qed (auto simp: login_def saveResume_def getUserResumes_def getArchivedResumes_def
       adminGetUsers_def adminGetResumes_def adminStatus_def archiveResume_def
       adminArchiveResume_def restoreResume_def deleteResume_def adminDeleteResume_def Let_def
       split: option.splits prod.splits)

lemma initializeAdmin_users:
  "users (initializeAdmin e s) = users s
   \<or> (\<exists>n d. insertOne True n d (users s) = Some (users (initializeAdmin e s)))"
  by (auto simp: initializeAdmin_def split: option.splits)

lemma reachable_unique_ids:
  "reachable s \<Longrightarrow> distinct (map (\<lambda>d. map_of d ''_id'') (users s))"
proof (induction rule: reachable.induct)
  case start
  show ?case by simp
next
  case (boot s e)
  then show ?case
    using initializeAdmin_users[of e s] by (auto dest: insertOne_unique_ids)
next
  case (request s e req)
  then show ?case
    using handle_users[of e req s] by (auto dest: insertOne_unique_ids simp: deleteOne_distinct)
qed

lemma reachable_unique_emails: "reachable s \<Longrightarrow> distinct (map email_key (users s))"
proof (induction rule: reachable.induct)
  case start
  show ?case by simp
next
  case (boot s e)
  then show ?case
    using initializeAdmin_users[of e s] by (auto dest: insertOne_unique_emails)
next
  case (request s e req)
  then show ?case
    using handle_users[of e req s] by (auto dest: insertOne_unique_emails simp: deleteOne_distinct)
qed

end
